theory Spec2Isabelle
  imports Main "HOL-Library.Sublist"
begin

section \<open>Text_Analysis: document loading, chunking, chunk selection and the chat loop\<close>

text \<open>
  A shallow embedding of \<^verbatim>\<open>main.py\<close>. Python strings are lists of characters; the
  character type is \<^typ>\<open>char\<close>, that is the code points below 256. The chunking and
  selection functions that do not look at characters are polymorphic in the element type.
  Everything that raises in Python returns \<open>Inl\<close> of an \<open>error\<close> here.
\<close>

subsection \<open>Exceptions\<close>

datatype error =
    ValueError             \<comment> \<open>\<^verbatim>\<open>max()\<close> of an empty sequence, \<^verbatim>\<open>range()\<close> with step 0\<close>
  | EOFError               \<comment> \<open>\<^verbatim>\<open>input()\<close> with no line left to read\<close>
  | ExtractionFailure      \<comment> \<open>raised by \<^verbatim>\<open>fitz.open\<close>, \<^verbatim>\<open>docx.Document\<close> or \<^verbatim>\<open>open\<close>/\<^verbatim>\<open>read\<close>\<close>
  | CollaboratorFailure    \<comment> \<open>raised by one of the two model pipelines\<close>

subsection \<open>Strings\<close>

text \<open>
  \<^verbatim>\<open>str.lower()\<close> on code points below 256: the upper-case letters are \<open>A\<close> to \<open>Z\<close>
  (65 to 90) and 192 to 222 without the multiplication sign 215; each has its lower-case
  letter 32 places further.
\<close>

definition lower_char :: "char \<Rightarrow> char" where
  "lower_char c =
     (let n = (of_char c :: nat)
      in if (65 \<le> n \<and> n \<le> 90) \<or> (192 \<le> n \<and> n \<le> 222 \<and> n \<noteq> 215)
         then char_of (n + 32) else c)"

definition lower :: "string \<Rightarrow> string" where
  "lower s = map lower_char s"

text \<open>
  \<^verbatim>\<open>needle in haystack\<close> for two strings: \<open>needle\<close> occurs as a contiguous run of
  \<open>haystack\<close>. The empty string occurs in every string.
\<close>

fun str_in :: "'a list \<Rightarrow> 'a list \<Rightarrow> bool" where
  "str_in needle [] = (needle = [])"
| "str_in needle (c # cs) = (prefix needle (c # cs) \<or> str_in needle cs)"

text \<open>\<^verbatim>\<open>sep.join(parts)\<close>.\<close>

fun join :: "'a list \<Rightarrow> 'a list list \<Rightarrow> 'a list" where
  "join sep [] = []"
| "join sep [x] = x"
| "join sep (x # y # ys) = x @ sep @ join sep (y # ys)"

text \<open>
  \<^verbatim>\<open>s.split(sep)\<close> for a separator of one character, as in \<^verbatim>\<open>file_path.split(".")\<close>:
  the pieces between the separators, always at least one piece.
\<close>

fun split :: "'a \<Rightarrow> 'a list \<Rightarrow> 'a list list" where
  "split sep [] = [[]]"
| "split sep (c # cs) =
     (if c = sep then [] # split sep cs
      else (case split sep cs of
              [] \<Rightarrow> [[c]]
            | p # ps \<Rightarrow> (c # p) # ps))"

text \<open>
  \<^verbatim>\<open>str.strip()\<close>: white space is removed at both ends. Below 256 the white-space
  characters are 9 to 13, 28 to 32, 133 and 160.
\<close>

definition isspace :: "char \<Rightarrow> bool" where
  "isspace c =
     (let n = (of_char c :: nat)
      in (9 \<le> n \<and> n \<le> 13) \<or> (28 \<le> n \<and> n \<le> 32) \<or> n = 133 \<or> n = 160)"

definition strip :: "string \<Rightarrow> string" where
  "strip s = rev (dropWhile isspace (rev (dropWhile isspace s)))"

subsection \<open>Slices and ranges\<close>

text \<open>
  \<^verbatim>\<open>xs[i:j]\<close>: a negative index counts from the end, and both indices are clamped to
  the list.
\<close>

definition slice_index :: "int \<Rightarrow> int \<Rightarrow> int" where
  "slice_index n k = (if k < 0 then max 0 (k + n) else min k n)"

definition slice :: "'a list \<Rightarrow> int \<Rightarrow> int \<Rightarrow> 'a list" where
  "slice xs i j =
     (let n = int (length xs); lo = slice_index n i; hi = slice_index n j
      in take (nat (hi - lo)) (drop (nat lo) xs))"

text \<open>
  The values of \<^verbatim>\<open>range(start, stop, step)\<close> for a step other than zero;
  \<^verbatim>\<open>range\<close> itself raises \<^verbatim>\<open>ValueError\<close> when the step is zero.
\<close>

function range_values :: "int \<Rightarrow> int \<Rightarrow> int \<Rightarrow> int list" where
  "range_values i stop step =
     (if 0 < step \<and> i < stop then i # range_values (i + step) stop step
      else if step < 0 \<and> stop < i then i # range_values (i + step) stop step
      else [])"
  by pat_completeness auto
termination
  by (relation "measure (\<lambda>(i, stop, step). nat (if 0 < step then stop - i else i - stop))")
     auto

declare range_values.simps [simp del]

definition py_range :: "int \<Rightarrow> int \<Rightarrow> int \<Rightarrow> error + int list" where
  "py_range start stop step =
     (if step = 0 then Inl ValueError else Inr (range_values start stop step))"

subsection \<open>Chunking\<close>

text \<open>
  The expression of \<^verbatim>\<open>summarize_document\<close> and \<^verbatim>\<open>find_best_chunk\<close>:
  \<^verbatim>\<open>[text[i:i + max_chunk_size] for i in range(0, len(text), max_chunk_size)]\<close>.
\<close>

definition chunks :: "'a list \<Rightarrow> int \<Rightarrow> error + 'a list list" where
  "chunks text max_chunk_size =
     (case py_range 0 (int (length text)) max_chunk_size of
        Inl e \<Rightarrow> Inl e
      | Inr is \<Rightarrow> Inr (map (\<lambda>i. slice text i (i + max_chunk_size)) is))"

subsection \<open>Chunk selection\<close>

text \<open>
  \<^verbatim>\<open>max(xs, key=key)\<close>: the first element whose key is greatest; an element replaces
  the best one so far only when its key is strictly greater. Raises on the empty list.
\<close>

fun max_key :: "('a \<Rightarrow> 'k::linorder) \<Rightarrow> 'a list \<Rightarrow> error + 'a" where
  "max_key key [] = Inl ValueError"
| "max_key key (x # xs) =
     Inr (foldl (\<lambda>best y. if key best < key y then y else best) x xs)"

definition find_best_chunk :: "string \<Rightarrow> string \<Rightarrow> int \<Rightarrow> error + string" where
  "find_best_chunk text query max_chunk_size =
     (case chunks text max_chunk_size of
        Inl e \<Rightarrow> Inl e
      | Inr cs \<Rightarrow> max_key (\<lambda>chunk. str_in (lower query) (lower chunk)) cs)"

subsection \<open>Question classification\<close>

definition short_keywords :: "string list" where
  "short_keywords = [''who'', ''when'', ''where'', ''how many'', ''how much'']"

definition long_keywords :: "string list" where
  "long_keywords =
     [''explain'', ''describe'', ''what are'', ''how does'', ''why'', ''impact'', ''effects'']"

definition classify_question_length :: "string \<Rightarrow> string" where
  "classify_question_length question =
     (if list_ex (\<lambda>keyword. str_in keyword (lower question)) short_keywords then ''short''
      else if list_ex (\<lambda>keyword. str_in keyword (lower question)) long_keywords then ''long''
      else ''medium'')"

subsection \<open>The outside world\<close>

text \<open>
  The libraries and the two model pipelines are parameters. A pipeline call is taken
  together with the selection of its result: \<open>qa_pipeline env q c\<close> is
  \<^verbatim>\<open>qa_pipeline(question=q, context=c)["answer"]\<close>, and \<open>summarizer env t mx mn\<close> is
  \<^verbatim>\<open>summarizer(t, max_length=mx, min_length=mn, do_sample=False)[0]["summary_text"]\<close>;
  \<open>fitz_open\<close> gives the text of the pages, \<open>docx_Document\<close> the text of the
  paragraphs, \<open>open_read\<close> the content of the file.
\<close>

record env =
  os_path_exists :: "string \<Rightarrow> bool"
  fitz_open :: "string \<Rightarrow> error + string list"
  docx_Document :: "string \<Rightarrow> error + string list"
  open_read :: "string \<Rightarrow> error + string"
  qa_pipeline :: "string \<Rightarrow> string \<Rightarrow> error + string"
  summarizer :: "string \<Rightarrow> int \<Rightarrow> int \<Rightarrow> error + string"

text \<open>
  What the program prints. Some of the printed lines hold pictographs, which are not
  characters below 256, so each \<^verbatim>\<open>print\<close> of the source is a constructor, with the
  text that varies as its argument.
\<close>

datatype line =
    UnsupportedFormat          \<comment> \<open>\<^verbatim>\<open>Unsupported format. Only PDF, DOCX, TXT are allowed.\<close>\<close>
  | GeneratingSummary          \<comment> \<open>\<^verbatim>\<open>Generating summary...\<close>\<close>
  | Summary string             \<comment> \<open>\<^verbatim>\<open>Summary:\<close> and the final summary\<close>
  | ChatbotReady               \<comment> \<open>\<^verbatim>\<open>Chatbot ready! Ask a question based on the document.\<close>\<close>
  | Goodbye                    \<comment> \<open>\<^verbatim>\<open>Goodbye!\<close>\<close>
  | AnswerShort string         \<comment> \<open>\<^verbatim>\<open>Answer (Short & Precise):\<close> and the answer\<close>
  | GeneratingDetailed         \<comment> \<open>\<^verbatim>\<open>Generating a detailed response...\<close>\<close>
  | AnswerDetailed string      \<comment> \<open>\<^verbatim>\<open>Answer (Detailed):\<close> and the answer\<close>
  | GeneratingMedium           \<comment> \<open>\<^verbatim>\<open>Generating a well-explained response...\<close>\<close>
  | AnswerMedium string        \<comment> \<open>\<^verbatim>\<open>Answer (Medium-Length Explanation):\<close> and the answer\<close>
  | FileNotFound               \<comment> \<open>\<^verbatim>\<open>File not found.\<close>\<close>
  | DocumentLoaded             \<comment> \<open>\<^verbatim>\<open>Document loaded successfully!\<close>\<close>

datatype prompt =
    AskPath                    \<comment> \<open>\<^verbatim>\<open>Enter the document path (PDF, DOCX, TXT):\<close>\<close>
  | AskQuestion                \<comment> \<open>\<^verbatim>\<open>Ask a question (or type 'exit' to quit):\<close>\<close>

text \<open>
  A run is the list of its events, in order, with the value returned or the exception
  raised. The lines typed at the terminal are a list; \<^verbatim>\<open>input\<close> raises
  \<^verbatim>\<open>EOFError\<close> when none is left.
\<close>

datatype event =
    Input prompt
  | Print line
  | CallQA string string
  | CallSummarizer string int int

type_synonym 'a io = "event list \<times> (error + 'a)"

definition io_return :: "'a \<Rightarrow> 'a io" where
  "io_return x = ([], Inr x)"

definition io_lift :: "error + 'a \<Rightarrow> 'a io" where
  "io_lift r = ([], r)"

definition io_print :: "line \<Rightarrow> unit io" where
  "io_print l = ([Print l], Inr ())"

definition io_bind :: "'a io \<Rightarrow> ('a \<Rightarrow> 'b io) \<Rightarrow> 'b io" where
  "io_bind m f =
     (case m of
        (tr, Inl e) \<Rightarrow> (tr, Inl e)
      | (tr, Inr x) \<Rightarrow> (case f x of (tr', r) \<Rightarrow> (tr @ tr', r)))"

definition invoke_qa :: "env \<Rightarrow> string \<Rightarrow> string \<Rightarrow> string io" where
  "invoke_qa env question context_text =
     ([CallQA question context_text], qa_pipeline env question context_text)"

definition invoke_summarizer :: "env \<Rightarrow> string \<Rightarrow> int \<Rightarrow> int \<Rightarrow> string io" where
  "invoke_summarizer env text max_length min_length =
     ([CallSummarizer text max_length min_length], summarizer env text max_length min_length)"

subsection \<open>Loading a document\<close>

definition extract_text_from_pdf :: "env \<Rightarrow> string \<Rightarrow> error + string" where
  "extract_text_from_pdf env file_path =
     (case fitz_open env file_path of
        Inl e \<Rightarrow> Inl e
      | Inr pages \<Rightarrow> Inr (join [CHR 0x0A] pages))"

definition extract_text_from_docx :: "env \<Rightarrow> string \<Rightarrow> error + string" where
  "extract_text_from_docx env file_path =
     (case docx_Document env file_path of
        Inl e \<Rightarrow> Inl e
      | Inr paragraphs \<Rightarrow> Inr (join [CHR 0x0A] paragraphs))"

definition extract_text_from_txt :: "env \<Rightarrow> string \<Rightarrow> error + string" where
  "extract_text_from_txt env file_path = open_read env file_path"

definition load_document :: "env \<Rightarrow> string \<Rightarrow> string option io" where
  "load_document env file_path =
     (let ext = lower (last (split (CHR ''.'') file_path))
      in if ext = ''pdf'' then
           io_bind (io_lift (extract_text_from_pdf env file_path)) (\<lambda>t. io_return (Some t))
         else if ext = ''docx'' then
           io_bind (io_lift (extract_text_from_docx env file_path)) (\<lambda>t. io_return (Some t))
         else if ext = ''txt'' then
           io_bind (io_lift (extract_text_from_txt env file_path)) (\<lambda>t. io_return (Some t))
         else
           io_bind (io_print UnsupportedFormat) (\<lambda>_. io_return None))"

subsection \<open>Summarising the document\<close>

text \<open>The \<^verbatim>\<open>for chunk in chunks\<close> loop, with \<^verbatim>\<open>summary_texts\<close> as accumulator.\<close>

fun summarize_chunks :: "env \<Rightarrow> string list \<Rightarrow> string list \<Rightarrow> string list io" where
  "summarize_chunks env [] summary_texts = io_return summary_texts"
| "summarize_chunks env (chunk # rest) summary_texts =
     io_bind (invoke_summarizer env chunk 200 50)
       (\<lambda>summary. summarize_chunks env rest (summary_texts @ [summary]))"

definition summarize_document :: "env \<Rightarrow> string \<Rightarrow> int \<Rightarrow> string io" where
  "summarize_document env text max_chunk_size =
     io_bind (io_print GeneratingSummary) (\<lambda>_.
     io_bind (io_lift (chunks text max_chunk_size)) (\<lambda>cs.
     io_bind (summarize_chunks env cs []) (\<lambda>summary_texts.
       let final_summary = join '' '' summary_texts
       in io_bind (io_print (Summary final_summary)) (\<lambda>_. io_return final_summary))))"

subsection \<open>The chat loop\<close>

definition summarize_text :: "env \<Rightarrow> string \<Rightarrow> int \<Rightarrow> int \<Rightarrow> string io" where
  "summarize_text env text max_length min_length =
     invoke_summarizer env text max_length min_length"

text \<open>
  The \<^verbatim>\<open>while True\<close> loop of \<^verbatim>\<open>chat_with_document\<close>, over the lines still to be
  read. There is no \<^verbatim>\<open>try\<close> in the source: an exception leaves the loop.
\<close>

fun chat_loop :: "env \<Rightarrow> string \<Rightarrow> int \<Rightarrow> string list \<Rightarrow> unit io" where
  "chat_loop env text max_chunk_size [] = ([Input AskQuestion], Inl EOFError)"
| "chat_loop env text max_chunk_size (query # rest) =
     io_bind ([Input AskQuestion], Inr ()) (\<lambda>_.
       if lower query = ''exit'' then io_print Goodbye
       else
         let answer_length = classify_question_length query
         in io_bind (io_lift (find_best_chunk text query max_chunk_size)) (\<lambda>best_chunk.
            io_bind
              (if answer_length = ''short'' then
                 io_bind (invoke_qa env query best_chunk) (\<lambda>answer.
                   io_print (AnswerShort answer))
               else if answer_length = ''long'' then
                 io_bind (io_print GeneratingDetailed) (\<lambda>_.
                 io_bind (summarize_text env best_chunk 500 150) (\<lambda>detailed_answer.
                   io_print (AnswerDetailed detailed_answer)))
               else
                 io_bind (io_print GeneratingMedium) (\<lambda>_.
                 io_bind (summarize_text env best_chunk 300 100) (\<lambda>medium_answer.
                   io_print (AnswerMedium medium_answer))))
              (\<lambda>_. chat_loop env text max_chunk_size rest)))"

definition chat_with_document :: "env \<Rightarrow> string \<Rightarrow> int \<Rightarrow> string list \<Rightarrow> unit io" where
  "chat_with_document env text max_chunk_size inputs =
     io_bind (io_print ChatbotReady) (\<lambda>_. chat_loop env text max_chunk_size inputs)"

subsection \<open>The program\<close>

text \<open>
  The \<^verbatim>\<open>__main__\<close> block. \<^verbatim>\<open>if document_text:\<close> is false for \<^verbatim>\<open>None\<close> and for
  the empty string.
\<close>

fun main :: "env \<Rightarrow> string list \<Rightarrow> unit io" where
  "main env [] = ([Input AskPath], Inl EOFError)"
| "main env (typed # rest) =
     io_bind ([Input AskPath], Inr ()) (\<lambda>_.
       let file_path = strip typed
       in if \<not> os_path_exists env file_path then io_print FileNotFound
          else
            io_bind (load_document env file_path) (\<lambda>document_text.
              case document_text of
                None \<Rightarrow> io_return ()
              | Some text \<Rightarrow>
                  if text = [] then io_return ()
                  else
                    io_bind (io_print DocumentLoaded) (\<lambda>_.
                    io_bind (summarize_document env text 800) (\<lambda>_.
                      chat_with_document env text 1500 rest))))"

subsection \<open>Sample environments\<close>

text \<open>
  Two environments to run the program on: in \<open>demo_env\<close> the question-answering
  pipeline answers with the first three characters of the context and the summarizer with
  the first two characters of its text; in \<open>failing_env\<close> both pipelines raise.
\<close>

definition demo_env :: env where
  "demo_env =
     \<lparr>os_path_exists = (\<lambda>p. p = ''notes.rtf'' \<or> p = ''empty.txt''),
      fitz_open = (\<lambda>p. Inl ExtractionFailure),
      docx_Document = (\<lambda>p. Inl ExtractionFailure),
      open_read = (\<lambda>p. if p = ''empty.txt'' then Inr [] else Inl ExtractionFailure),
      qa_pipeline = (\<lambda>question context_text. Inr (take 3 context_text)),
      summarizer = (\<lambda>t max_length min_length. Inr (take 2 t))\<rparr>"

definition failing_env :: env where
  "failing_env =
     demo_env\<lparr>qa_pipeline := (\<lambda>question context_text. Inl CollaboratorFailure),
              summarizer := (\<lambda>t max_length min_length. Inl CollaboratorFailure)\<rparr>"

section \<open>Properties\<close>

subsection \<open>Strings, selection and chunking\<close>

lemma str_in_iff_sublist: "str_in needle hay \<longleftrightarrow> sublist needle hay"
  by (induction hay) (simp_all add: sublist_Cons_right)

lemma foldl_first_true:
  "foldl (\<lambda>best y. if key best < key y then y else best) b xs =
     (if key b then b else (case find key xs of Some c \<Rightarrow> c | None \<Rightarrow> b))"
  by (induction xs arbitrary: b) (auto split: option.splits)

lemma max_key_bool:
  "max_key key (x # xs) = Inr (case find key (x # xs) of Some c \<Rightarrow> c | None \<Rightarrow> x)"
  unfolding max_key.simps foldl_first_true by simp

lemma slice_chunk:
  assumes "0 \<le> i" "0 < S"
  shows "slice xs i (i + S) = take (nat S) (drop (nat i) xs)"
  using assms by (auto simp: slice_def slice_index_def Let_def min_def take_all_iff)

lemma concat_chunks_from:
  "0 < S \<Longrightarrow> 0 \<le> i \<Longrightarrow>
   concat (map (\<lambda>k. slice xs k (k + S)) (range_values i (int (length xs)) S)) = drop (nat i) xs"
proof (induction i "int (length xs)" S rule: range_values.induct)
  case (1 i S)
  show ?case
  proof (cases "i < int (length xs)")
    case True
    have d: "drop (nat (i + S)) xs = drop (nat S) (drop (nat i) xs)"
      using 1(3,4) by (simp add: nat_add_distrib add.commute)
    have "concat (map (\<lambda>k. slice xs k (k + S)) (range_values (i + S) (int (length xs)) S))
            = drop (nat (i + S)) xs"
      using 1(1)[OF _ 1(3)] True 1(3,4) by simp
    moreover have "range_values i (int (length xs)) S = i # range_values (i + S) (int (length xs)) S"
      using True 1(3) by (subst range_values.simps) simp
    ultimately show ?thesis
      by (simp only: list.map concat.simps slice_chunk[OF 1(4) 1(3)] d append_take_drop_id)
  next
    case False
    then show ?thesis
      using 1(3,4) by (subst range_values.simps) simp
  qed
qed


lemma chunk_lengths_from:
  "0 < S \<Longrightarrow> 0 \<le> i \<Longrightarrow>
   cs = map (\<lambda>k. slice xs k (k + S)) (range_values i (int (length xs)) S) \<Longrightarrow>
   (\<forall>c \<in> set (butlast cs). int (length c) = S) \<and>
   (cs \<noteq> [] \<longrightarrow>
      int (length (last cs)) =
        (if (int (length xs) - i) mod S = 0 then S else (int (length xs) - i) mod S)) \<and>
   (cs = [] \<longleftrightarrow> int (length xs) \<le> i)"
proof (induction i "int (length xs)" S arbitrary: cs rule: range_values.induct)
  case (1 i S)
  let ?n = "int (length xs)"
  let ?f = "\<lambda>k. slice xs k (k + S)"
  show ?case
  proof (cases "i < ?n")
    case False
    then have "range_values i ?n S = []"
      using 1(3) by (subst range_values.simps) simp
    then show ?thesis using 1(5) False by simp
  next
    case True
    let ?cs' = "map ?f (range_values (i + S) ?n S)"
    have step: "range_values i ?n S = i # range_values (i + S) ?n S"
      using True 1(3) by (subst range_values.simps) simp
    define c0 where "c0 = take (nat S) (drop (nat i) xs)"
    have cs: "cs = c0 # ?cs'"
      using 1(5) by (simp only: c0_def step list.map slice_chunk[OF 1(4) 1(3)])
    have ih: "(\<forall>c \<in> set (butlast ?cs'). int (length c) = S) \<and>
      (?cs' \<noteq> [] \<longrightarrow>
         int (length (last ?cs')) =
           (if (?n - (i + S)) mod S = 0 then S else (?n - (i + S)) mod S)) \<and>
      (?cs' = [] \<longleftrightarrow> ?n \<le> i + S)"
      using 1(1)[OF _ 1(3) _ refl] True 1(3,4) by simp
    have m: "(?n - (i + S)) mod S = (?n - i) mod S"
      by (metis diff_diff_eq mod_diff_right_eq mod_self diff_zero)
    show ?thesis
    proof (cases "?n \<le> i + S")
      case True
      then have e: "?cs' = []" using ih by blast
      have len: "int (length c0) = ?n - i"
        using True \<open>i < ?n\<close> 1(3,4) by (simp add: c0_def)
      have "(?n - i) mod S = (if ?n - i = S then 0 else ?n - i)"
        using True \<open>i < ?n\<close> 1(3) by simp
      then show ?thesis
        using \<open>i < ?n\<close> by (simp add: cs e len)
    next
      case False
      then have ne: "?cs' \<noteq> []" using ih by blast
      have len: "int (length c0) = S"
        using False 1(3,4) by (simp add: c0_def)
      show ?thesis
        using ih ne \<open>i < ?n\<close> by (simp add: cs len m)
    qed
  qed
qed

lemma chunks_pos:
  "0 < S \<Longrightarrow> chunks T S = Inr (map (\<lambda>k. slice T k (k + S)) (range_values 0 (int (length T)) S))"
  by (simp add: chunks_def py_range_def)

lemma chunks_props:
  assumes "0 < S" and "chunks T S = Inr cs"
  shows "concat cs = T"
    and "\<forall>c \<in> set (butlast cs). int (length c) = S"
    and "cs \<noteq> [] \<longrightarrow>
           int (length (last cs)) =
             (if int (length T) mod S = 0 then S else int (length T) mod S)"
    and "T = [] \<longrightarrow> cs = []"
proof -
  have cs: "cs = map (\<lambda>k. slice T k (k + S)) (range_values 0 (int (length T)) S)"
    using chunks_pos[OF assms(1), of T] assms(2) by simp
  show "concat cs = T"
    using concat_chunks_from[OF assms(1), of 0 T] cs by simp
  have "(\<forall>c \<in> set (butlast cs). int (length c) = S) \<and>
      (cs \<noteq> [] \<longrightarrow>
         int (length (last cs)) =
           (if (int (length T) - 0) mod S = 0 then S else (int (length T) - 0) mod S)) \<and>
      (cs = [] \<longleftrightarrow> int (length T) \<le> 0)"
    by (rule chunk_lengths_from[OF assms(1) _ cs]) simp
  then show "\<forall>c \<in> set (butlast cs). int (length c) = S"
    and "cs \<noteq> [] \<longrightarrow>
           int (length (last cs)) =
             (if int (length T) mod S = 0 then S else int (length T) mod S)"
    and "T = [] \<longrightarrow> cs = []"
    by auto
qed

text \<open>
  Claim C3. For every text \<open>T\<close> and every chunk size \<open>S > 0\<close> the chunking expression
  succeeds; its chunks, concatenated in order, are \<open>T\<close>; every chunk but the last has
  length \<open>S\<close>; the last chunk has length \<open>len(T) mod S\<close>, or \<open>S\<close> when \<open>S\<close> divides
  \<open>len(T)\<close>; and the empty text has no chunk.
\<close>

theorem chunks_partition:
  assumes "0 < S"
  shows "\<exists>cs. chunks T S = Inr cs \<and> concat cs = T \<and>
           (\<forall>c \<in> set (butlast cs). int (length c) = S) \<and>
           (cs \<noteq> [] \<longrightarrow>
              int (length (last cs)) =
                (if int (length T) mod S = 0 then S else int (length T) mod S)) \<and>
           (T = [] \<longrightarrow> cs = [])"
proof -
  obtain cs where cs: "chunks T S = Inr cs"
    using chunks_pos[OF assms, of T] by blast
  show ?thesis
    using cs chunks_props[OF assms cs] by blast
qed

lemma chunks_abcdefgh: "chunks ''abcdefgh'' 3 = Inr [''abc'', ''def'', ''gh'']"
  by (simp add: chunks_def py_range_def range_values.simps slice_def slice_index_def)

theorem chunks_partition_witness:
  "(0::int) < 3 \<and> chunks ''abcdefgh'' 3 = Inr [''abc'', ''def'', ''gh''] \<and>
   concat [''abc'', ''def'', ''gh''] = ''abcdefgh'' \<and>
   map length (butlast [''abc'', ''def'', ''gh'']) = [3, 3] \<and>
   int (length (last [''abc'', ''def'', ''gh''])) = int (length ''abcdefgh'') mod 3"
  using chunks_partition[of 3 "''abcdefgh''"] chunks_abcdefgh by simp

lemma chunks_nonempty:
  assumes "0 < S" "text \<noteq> []"
  shows "\<exists>c cs. chunks text S = Inr (c # cs)"
proof -
  have "range_values 0 (int (length text)) S = 0 # range_values (0 + S) (int (length text)) S"
    using assms by (subst range_values.simps) simp
  then show ?thesis
    using chunks_pos[OF assms(1), of "text"] by simp
qed

text \<open>
  Claim C1. For a text that is not empty (and a positive chunk size, as the default 1500),
  \<^verbatim>\<open>find_best_chunk\<close> returns the first chunk, in order, whose lower-cased text
  contains the lower-cased query as a substring, and the first chunk of all when no chunk
  contains it.
\<close>

theorem find_best_chunk_first_match:
  assumes "text \<noteq> []" and "0 < S"
  shows "\<exists>c cs. chunks text S = Inr (c # cs) \<and>
           find_best_chunk text query S =
             Inr (case find (\<lambda>chunk. sublist (lower query) (lower chunk)) (c # cs) of
                    Some b \<Rightarrow> b
                  | None \<Rightarrow> c)"
proof -
  obtain c cs where cs: "chunks text S = Inr (c # cs)"
    using chunks_nonempty[OF assms(2,1)] by blast
  have "find_best_chunk text query S =
          max_key (\<lambda>chunk. str_in (lower query) (lower chunk)) (c # cs)"
    by (simp add: find_best_chunk_def cs)
  then show ?thesis
    using cs by (simp only: max_key_bool str_in_iff_sublist) blast
qed

lemma lower_cat: "lower ''The cat sat on the mat'' = ''the cat sat on the mat''"
  and lower_MAT: "lower ''MAT'' = ''mat''"
  and lower_chunk1: "lower ''The cat sat'' = ''the cat sat''"
  and lower_chunk2: "lower '' on the mat'' = '' on the mat''"
  and lower_dog: "lower ''dog'' = ''dog''"
  by code_simp+

lemma chunks_cat: "chunks ''The cat sat on the mat'' 11 = Inr [''The cat sat'', '' on the mat'']"
  by (simp add: chunks_def py_range_def range_values.simps slice_def slice_index_def)

theorem find_best_chunk_first_match_witness:
  "''The cat sat on the mat'' \<noteq> [] \<and> (0::int) < 11 \<and>
   find_best_chunk ''The cat sat on the mat'' ''MAT'' 11 = Inr '' on the mat'' \<and>
   find_best_chunk ''The cat sat on the mat'' ''dog'' 11 = Inr ''The cat sat''"
  using find_best_chunk_first_match[of "''The cat sat on the mat''" 11 "''MAT''"]
    find_best_chunk_first_match[of "''The cat sat on the mat''" 11 "''dog''"]
    chunks_cat
  by (simp add: lower_cat lower_MAT lower_chunk1 lower_chunk2 lower_dog flip: str_in_iff_sublist)

subsection \<open>Classification\<close>

text \<open>
  Claim C4. \<^verbatim>\<open>classify_question_length\<close> returns \<open>short\<close> when one of who, when, where,
  how many, how much occurs in the lower-cased query; otherwise \<open>long\<close> when one of
  explain, describe, what are, how does, why, impact, effects occurs in it; otherwise
  \<open>medium\<close>. A query with cues of both lists is \<open>short\<close>.
\<close>

theorem classify_question_length_cues:
  "classify_question_length q =
     (if \<exists>k \<in> {''who'', ''when'', ''where'', ''how many'', ''how much''}. sublist k (lower q)
      then ''short''
      else if \<exists>k \<in> {''explain'', ''describe'', ''what are'', ''how does'', ''why'',
                       ''impact'', ''effects''}. sublist k (lower q)
      then ''long''
      else ''medium'') \<and>
   ((\<exists>k \<in> {''who'', ''when'', ''where'', ''how many'', ''how much''}. sublist k (lower q)) \<and>
    (\<exists>k \<in> {''explain'', ''describe'', ''what are'', ''how does'', ''why'',
              ''impact'', ''effects''}. sublist k (lower q))
      \<longrightarrow> classify_question_length q = ''short'')"
  by (simp add: classify_question_length_def list_ex_iff short_keywords_def long_keywords_def
      str_in_iff_sublist)

lemma lower_how_many: "lower ''How many effects'' = ''how many effects''"
  by code_simp

theorem classify_question_length_cues_witness:
  "sublist ''how many'' (lower ''How many effects'') \<and>
   sublist ''effects'' (lower ''How many effects'') \<and>
   classify_question_length ''How many effects'' = ''short''"
  using classify_question_length_cues[of "''How many effects''"]
  by (simp add: lower_how_many flip: str_in_iff_sublist)

subsection \<open>Runs\<close>

lemma io_bind_Inl: "io_bind (tr, Inl e) f = (tr, Inl e)"
  by (simp add: io_bind_def)

lemma io_bind_Inr: "io_bind (tr, Inr x) f = (tr @ fst (f x), snd (f x))"
  by (simp add: io_bind_def split: prod.splits)

lemmas io_simps =
  io_bind_Inl io_bind_Inr io_return_def io_lift_def io_print_def invoke_qa_def
  invoke_summarizer_def summarize_text_def

lemma chunks_empty: "S \<noteq> 0 \<Longrightarrow> chunks ([] :: 'a list) S = Inr []"
  by (simp add: chunks_def py_range_def range_values.simps)

lemma find_best_chunk_empty: "find_best_chunk [] query S = Inl ValueError"
  by (cases "S = 0") (simp_all add: find_best_chunk_def chunks_empty, simp add: chunks_def py_range_def)

text \<open>
  Claim C9. On the empty text \<^verbatim>\<open>find_best_chunk\<close> raises: the chunk list is empty and
  \<^verbatim>\<open>max\<close> of an empty sequence is a \<^verbatim>\<open>ValueError\<close>; on a text that is not empty (and
  a positive chunk size) it returns a chunk. So the chat loop, run on the empty text, ends
  with that exception at its first query other than the exit token.
\<close>

theorem find_best_chunk_needs_text:
  "find_best_chunk [] query S = Inl ValueError \<and>
   (S \<noteq> 0 \<longrightarrow> chunks ([] :: string) S = Inr []) \<and>
   (0 < S \<longrightarrow> text \<noteq> [] \<longrightarrow> (\<exists>c. find_best_chunk text query S = Inr c)) \<and>
   (lower query \<noteq> ''exit'' \<longrightarrow>
      chat_with_document env [] S (query # rest) =
        ([Print ChatbotReady, Input AskQuestion], Inl ValueError))"
proof -
  have "\<exists>c. find_best_chunk text query S = Inr c" if pos: "0 < S" and ne: "text \<noteq> []"
  proof -
    obtain c cs where "chunks text S = Inr (c # cs)"
      using chunks_nonempty[OF pos ne] by blast
    then show ?thesis by (simp add: find_best_chunk_def)
  qed
  then show ?thesis
    by (simp add: find_best_chunk_empty chunks_empty chat_with_document_def io_simps)
qed

lemma lower_why: "lower ''Why?'' = ''why?''"
  by code_simp

theorem find_best_chunk_needs_text_witness:
  "find_best_chunk [] ''Why?'' 1500 = Inl ValueError \<and>
   chunks ([] :: string) 1500 = Inr [] \<and>
   lower ''Why?'' \<noteq> ''exit'' \<and>
   chat_with_document demo_env [] 1500 [''Why?'', ''exit''] =
     ([Print ChatbotReady, Input AskQuestion], Inl ValueError)"
  using find_best_chunk_needs_text[of "''Why?''" 1500 "''x''" demo_env "[''exit'']"]
  by (simp add: lower_why)

subsection \<open>The exit token\<close>

text \<open>
  Claim C8. A query that is \<open>exit\<close> once lower-cased makes the chat loop print the
  farewell and return normally; no pipeline is called for it, and no further line is read.
\<close>

theorem exit_ends_chat:
  assumes "lower query = ''exit''"
  shows "chat_loop env text S (query # rest) = ([Input AskQuestion, Print Goodbye], Inr ()) \<and>
         chat_with_document env text S (query # rest) =
           ([Print ChatbotReady, Input AskQuestion, Print Goodbye], Inr ())"
  using assms by (simp add: chat_with_document_def io_simps)

lemma lower_Exit: "lower ''Exit'' = ''exit''"
  by code_simp

theorem exit_ends_chat_witness:
  "lower ''Exit'' = ''exit'' \<and>
   chat_with_document demo_env ''abc'' 1500 [''Exit'', ''Why?''] =
     ([Print ChatbotReady, Input AskQuestion, Print Goodbye], Inr ())"
  using exit_ends_chat[of "''Exit''" demo_env "''abc''" 1500 "[''Why?'']"]
  by (simp add: lower_Exit)

subsection \<open>Dispatch on the class of the question\<close>

text \<open>
  Claim C6. For a query other than the exit token, with \<open>best_chunk\<close> the chunk selected:
  class \<open>short\<close> calls the question-answering pipeline on the query and the chunk and
  prints its answer as it is; class \<open>long\<close> calls the summarizer on the chunk with
  maximum length 500 and minimum length 150; class \<open>medium\<close> calls it with 300 and 100.
  The loop then goes on with the next line.
\<close>

theorem chat_dispatch:
  assumes "lower query \<noteq> ''exit''"
    and "find_best_chunk text query S = Inr best_chunk"
  shows "(classify_question_length query = ''short'' \<longrightarrow>
            (\<forall>answer. qa_pipeline env query best_chunk = Inr answer \<longrightarrow>
               chat_loop env text S (query # rest) =
                 ([Input AskQuestion, CallQA query best_chunk, Print (AnswerShort answer)]
                    @ fst (chat_loop env text S rest),
                  snd (chat_loop env text S rest)))) \<and>
         (classify_question_length query = ''long'' \<longrightarrow>
            (\<forall>answer. summarizer env best_chunk 500 150 = Inr answer \<longrightarrow>
               chat_loop env text S (query # rest) =
                 ([Input AskQuestion, Print GeneratingDetailed,
                   CallSummarizer best_chunk 500 150, Print (AnswerDetailed answer)]
                    @ fst (chat_loop env text S rest),
                  snd (chat_loop env text S rest)))) \<and>
         (classify_question_length query = ''medium'' \<longrightarrow>
            (\<forall>answer. summarizer env best_chunk 300 100 = Inr answer \<longrightarrow>
               chat_loop env text S (query # rest) =
                 ([Input AskQuestion, Print GeneratingMedium,
                   CallSummarizer best_chunk 300 100, Print (AnswerMedium answer)]
                    @ fst (chat_loop env text S rest),
                  snd (chat_loop env text S rest))))"
  using assms by (simp add: io_simps)

lemma lower_who: "lower ''Who?'' = ''who?''"
  and lower_hm: "lower ''Hm'' = ''hm''"
  and lower_abc: "lower ''abc'' = ''abc''"
  by code_simp+

lemma chunks_abc: "chunks ''abc'' 1500 = Inr [''abc'']"
  by (simp add: chunks_def py_range_def range_values.simps slice_def slice_index_def)

lemma classify_who: "classify_question_length ''Who?'' = ''short''"
  and classify_why: "classify_question_length ''Why?'' = ''long''"
  and classify_hm: "classify_question_length ''Hm'' = ''medium''"
  by (simp_all add: classify_question_length_def short_keywords_def long_keywords_def
      lower_who lower_why lower_hm)

lemma best_chunk_abc:
  "find_best_chunk ''abc'' ''Who?'' 1500 = Inr ''abc''"
  "find_best_chunk ''abc'' ''Why?'' 1500 = Inr ''abc''"
  "find_best_chunk ''abc'' ''Hm'' 1500 = Inr ''abc''"
  by (simp_all add: find_best_chunk_def chunks_abc)

lemma chat_loop_Exit: "chat_loop env text S [''Exit''] = ([Input AskQuestion, Print Goodbye], Inr ())"
  by (simp add: lower_Exit io_simps)

theorem chat_dispatch_witness:
  "chat_loop demo_env ''abc'' 1500 [''Who?'', ''Exit''] =
     ([Input AskQuestion, CallQA ''Who?'' ''abc'', Print (AnswerShort ''abc''),
       Input AskQuestion, Print Goodbye], Inr ()) \<and>
   chat_loop demo_env ''abc'' 1500 [''Why?'', ''Exit''] =
     ([Input AskQuestion, Print GeneratingDetailed, CallSummarizer ''abc'' 500 150,
       Print (AnswerDetailed ''ab''), Input AskQuestion, Print Goodbye], Inr ()) \<and>
   chat_loop demo_env ''abc'' 1500 [''Hm'', ''Exit''] =
     ([Input AskQuestion, Print GeneratingMedium, CallSummarizer ''abc'' 300 100,
       Print (AnswerMedium ''ab''), Input AskQuestion, Print Goodbye], Inr ())"
proof -
  have ne: "lower ''Who?'' \<noteq> ''exit''" "lower ''Why?'' \<noteq> ''exit''" "lower ''Hm'' \<noteq> ''exit''"
    by (simp_all add: lower_who lower_why lower_hm)
  have q: "qa_pipeline demo_env ''Who?'' ''abc'' = Inr ''abc''"
    and l: "summarizer demo_env ''abc'' 500 150 = Inr ''ab''"
    and m: "summarizer demo_env ''abc'' 300 100 = Inr ''ab''"
    by (simp_all add: demo_env_def)
  have a: "chat_loop demo_env ''abc'' 1500 [''Who?'', ''Exit''] =
      ([Input AskQuestion, CallQA ''Who?'' ''abc'', Print (AnswerShort ''abc'')]
         @ fst (chat_loop demo_env ''abc'' 1500 [''Exit'']),
       snd (chat_loop demo_env ''abc'' 1500 [''Exit'']))"
    using chat_dispatch[OF ne(1) best_chunk_abc(1), of demo_env "[''Exit'']"] classify_who q
    by blast
  have b: "chat_loop demo_env ''abc'' 1500 [''Why?'', ''Exit''] =
      ([Input AskQuestion, Print GeneratingDetailed, CallSummarizer ''abc'' 500 150,
        Print (AnswerDetailed ''ab'')]
         @ fst (chat_loop demo_env ''abc'' 1500 [''Exit'']),
       snd (chat_loop demo_env ''abc'' 1500 [''Exit'']))"
    using chat_dispatch[OF ne(2) best_chunk_abc(2), of demo_env "[''Exit'']"] classify_why l
    by blast
  have c: "chat_loop demo_env ''abc'' 1500 [''Hm'', ''Exit''] =
      ([Input AskQuestion, Print GeneratingMedium, CallSummarizer ''abc'' 300 100,
        Print (AnswerMedium ''ab'')]
         @ fst (chat_loop demo_env ''abc'' 1500 [''Exit'']),
       snd (chat_loop demo_env ''abc'' 1500 [''Exit'']))"
    using chat_dispatch[OF ne(3) best_chunk_abc(3), of demo_env "[''Exit'']"] classify_hm m
    by blast
  show ?thesis
    unfolding a b c chat_loop_Exit by simp
qed

subsection \<open>A collaborator that raises\<close>

text \<open>
  Claim C2 says that a failure of a pipeline during one query is caught and reported, and
  that the loop goes on to the next prompt. The source has no handler: with a summarizer
  that raises, the run below ends with the exception at the first query; nothing is
  reported and the second line is never asked for.
\<close>

theorem chat_failure_ends_loop_counterexample:
  "chat_with_document failing_env ''abc'' 1500 [''Why?'', ''Exit''] =
     ([Print ChatbotReady, Input AskQuestion, Print GeneratingDetailed,
       CallSummarizer ''abc'' 500 150], Inl CollaboratorFailure)"
  by (simp add: chat_with_document_def io_simps lower_why classify_why best_chunk_abc
      failing_env_def demo_env_def)

text \<open>
  Claim C2, as amended. For a query other than the exit token, an exception raised by the
  pipeline that the class of the query selects is not caught: it leaves the chat loop. The
  events of the run end with the call that raised, and no line after the query is read.
\<close>

theorem chat_failure_propagates:
  assumes "lower query \<noteq> ''exit''"
    and "find_best_chunk text query S = Inr best_chunk"
  shows "(classify_question_length query = ''short'' \<longrightarrow>
            qa_pipeline env query best_chunk = Inl e \<longrightarrow>
            chat_loop env text S (query # rest) =
              ([Input AskQuestion, CallQA query best_chunk], Inl e)) \<and>
         (classify_question_length query = ''long'' \<longrightarrow>
            summarizer env best_chunk 500 150 = Inl e \<longrightarrow>
            chat_loop env text S (query # rest) =
              ([Input AskQuestion, Print GeneratingDetailed,
                CallSummarizer best_chunk 500 150], Inl e)) \<and>
         (classify_question_length query = ''medium'' \<longrightarrow>
            summarizer env best_chunk 300 100 = Inl e \<longrightarrow>
            chat_loop env text S (query # rest) =
              ([Input AskQuestion, Print GeneratingMedium,
                CallSummarizer best_chunk 300 100], Inl e))"
  using assms by (simp add: io_simps)

theorem chat_failure_propagates_witness:
  "chat_loop failing_env ''abc'' 1500 [''Who?'', ''Exit''] =
     ([Input AskQuestion, CallQA ''Who?'' ''abc''], Inl CollaboratorFailure) \<and>
   chat_loop failing_env ''abc'' 1500 [''Hm'', ''Exit''] =
     ([Input AskQuestion, Print GeneratingMedium, CallSummarizer ''abc'' 300 100],
      Inl CollaboratorFailure)"
proof -
  have ne: "lower ''Who?'' \<noteq> ''exit''" "lower ''Hm'' \<noteq> ''exit''"
    by (simp_all add: lower_who lower_hm)
  have q: "qa_pipeline failing_env ''Who?'' ''abc'' = Inl CollaboratorFailure"
    and m: "summarizer failing_env ''abc'' 300 100 = Inl CollaboratorFailure"
    by (simp_all add: failing_env_def)
  show ?thesis
    using chat_failure_propagates[OF ne(1) best_chunk_abc(1),
        of failing_env CollaboratorFailure "[''Exit'']"]
      chat_failure_propagates[OF ne(2) best_chunk_abc(3),
        of failing_env CollaboratorFailure "[''Exit'']"]
      classify_who classify_hm q m
    by blast
qed

subsection \<open>The summary of the document\<close>

lemma join_Cons: "join sep (x # xs) = x @ concat (map (\<lambda>y. sep @ y) xs)"
  by (induction xs arbitrary: x) simp_all

lemma summarize_chunks_all:
  "\<forall>c \<in> set cs. summarizer env c 200 50 = Inr (f c) \<Longrightarrow>
   summarize_chunks env cs acc = (map (\<lambda>c. CallSummarizer c 200 50) cs, Inr (acc @ map f cs))"
  by (induction cs arbitrary: acc) (simp_all add: io_simps)

lemma chunk_length_le:
  assumes "0 < S" and "chunks T S = Inr cs" and "c \<in> set cs"
  shows "int (length c) \<le> S"
proof -
  note b = chunks_props(2)[OF assms(1,2)] and l = chunks_props(3)[OF assms(1,2)]
  from assms(3) have ne: "cs \<noteq> []" by auto
  then have "c \<in> set (butlast cs) \<or> c = last cs"
    using assms(3) by (metis append_butlast_last_id in_set_butlast_appendI set_ConsD
        set_append empty_iff empty_set Un_iff)
  moreover have "int (length T) mod S < S"
    using assms(1) by simp
  ultimately show ?thesis
    using b l ne by (auto split: if_splits)
qed

text \<open>
  Claim C5. \<^verbatim>\<open>summarize_document\<close>, with its chunk size 800, cuts the text into chunks
  of at most 800 characters that make up the text, calls the summarizer once on each chunk,
  in order, with the chunk alone, and (when no call raises) prints and returns the
  summaries of the chunks, in the order of the chunks, joined by one space.
\<close>

theorem summarize_document_chunks:
  "\<exists>cs. chunks text 800 = Inr cs \<and> concat cs = text \<and>
         (\<forall>c \<in> set cs. length c \<le> 800) \<and>
         ((\<forall>c \<in> set cs. summarizer env c 200 50 = Inr (f c)) \<longrightarrow>
            summarize_document env text 800 =
              (Print GeneratingSummary # map (\<lambda>c. CallSummarizer c 200 50) cs
                 @ [Print (Summary (join '' '' (map f cs)))],
               Inr (join '' '' (map f cs))))"
proof -
  obtain cs where cs: "chunks text 800 = Inr cs"
    using chunks_pos[of 800 "text"] by simp
  have cat: "concat cs = text"
    using chunks_props(1)[OF _ cs] by simp
  have len: "\<forall>c \<in> set cs. length c \<le> 800"
    using chunk_length_le[OF _ cs] by fastforce
  have "summarize_document env text 800 =
          (Print GeneratingSummary # map (\<lambda>c. CallSummarizer c 200 50) cs
             @ [Print (Summary (join '' '' (map f cs)))],
           Inr (join '' '' (map f cs)))"
    if "\<forall>c \<in> set cs. summarizer env c 200 50 = Inr (f c)"
    by (simp add: summarize_document_def cs summarize_chunks_all[OF that] io_return_def
        io_lift_def io_print_def io_bind_Inr Let_def)
  then show ?thesis
    using cs cat len by blast
qed

lemma chunks_1000:
  "chunks (replicate 1000 (CHR ''a'')) 800 =
     Inr [replicate 800 (CHR ''a''), replicate 200 (CHR ''a'')]"
  by (simp add: chunks_def py_range_def range_values.simps slice_def slice_index_def)

theorem summarize_document_chunks_witness:
  "chunks (replicate 1000 (CHR ''a'')) 800 =
     Inr [replicate 800 (CHR ''a''), replicate 200 (CHR ''a'')] \<and>
   summarize_document demo_env (replicate 1000 (CHR ''a'')) 800 =
     ([Print GeneratingSummary,
       CallSummarizer (replicate 800 (CHR ''a'')) 200 50,
       CallSummarizer (replicate 200 (CHR ''a'')) 200 50,
       Print (Summary ''aa aa'')],
      Inr ''aa aa'')"
proof -
  have aa: "replicate 2 (CHR ''a'') = ''aa''"
    by (simp add: numeral_2_eq_2)
  show ?thesis
    using summarize_document_chunks[of "replicate 1000 (CHR ''a'')" demo_env "take 2"]
      chunks_1000
    by (simp add: demo_env_def aa)
qed

subsection \<open>Loading and the top level\<close>

text \<open>
  Claim C7. When the lower-cased last piece of the path, split at the dots, is none of
  \<open>pdf\<close>, \<open>docx\<close>, \<open>txt\<close>, \<^verbatim>\<open>load_document\<close> prints that the format is not supported
  and returns \<^verbatim>\<open>None\<close> without raising; the program then ends normally with neither
  the summary nor the chat loop.
\<close>

theorem unsupported_format_aborts:
  assumes "lower (last (split (CHR ''.'') file_path)) \<notin> {''pdf'', ''docx'', ''txt''}"
  shows "load_document env file_path = ([Print UnsupportedFormat], Inr None) \<and>
         (strip typed = file_path \<longrightarrow> os_path_exists env file_path \<longrightarrow>
            main env (typed # rest) = ([Input AskPath, Print UnsupportedFormat], Inr ()))"
proof -
  have "load_document env file_path = ([Print UnsupportedFormat], Inr None)"
    using assms by (simp add: load_document_def Let_def io_simps)
  then show ?thesis
    by (simp add: Let_def io_simps)
qed

lemma ext_rtf: "lower (last (split (CHR ''.'') ''notes.rtf'')) = ''rtf''"
  and strip_rtf: "strip ''  notes.rtf '' = ''notes.rtf''"
  and ext_txt: "lower (last (split (CHR ''.'') ''empty.txt'')) = ''txt''"
  and strip_txt: "strip ''empty.txt'' = ''empty.txt''"
  by code_simp+

theorem unsupported_format_aborts_witness:
  "lower (last (split (CHR ''.'') ''notes.rtf'')) = ''rtf'' \<and>
   load_document demo_env ''notes.rtf'' = ([Print UnsupportedFormat], Inr None) \<and>
   main demo_env [''  notes.rtf '', ''Why?''] = ([Input AskPath, Print UnsupportedFormat], Inr ())"
proof -
  have h: "lower (last (split (CHR ''.'') ''notes.rtf'')) \<notin> {''pdf'', ''docx'', ''txt''}"
    unfolding ext_rtf by simp
  have e: "os_path_exists demo_env ''notes.rtf''"
    by (simp add: demo_env_def)
  show ?thesis
    using unsupported_format_aborts[OF h, of demo_env "''  notes.rtf ''" "[''Why?'']"]
      strip_rtf e ext_rtf
    by blast
qed

text \<open>
  Claim C10. At the top level a document loaded as the empty string is treated as
  \<^verbatim>\<open>None\<close> is: after \<^verbatim>\<open>load_document\<close> nothing more happens, so there is no message
  of success, no summary and no chat loop, and the program ends normally.
\<close>

theorem empty_text_skips_chat:
  assumes "os_path_exists env (strip typed)"
    and "load_document env (strip typed) = (tr, Inr document_text)"
    and "document_text = None \<or> document_text = Some []"
  shows "main env (typed # rest) = (Input AskPath # tr, Inr ())"
  using assms by (auto simp: Let_def io_simps)

lemma load_empty_txt: "load_document demo_env ''empty.txt'' = ([], Inr (Some []))"
  unfolding load_document_def ext_txt
  by (simp add: io_simps extract_text_from_txt_def demo_env_def)

theorem empty_text_skips_chat_witness:
  "load_document demo_env ''empty.txt'' = ([], Inr (Some [])) \<and>
   main demo_env [''empty.txt'', ''Why?''] = ([Input AskPath], Inr ())"
proof -
  have e: "os_path_exists demo_env (strip ''empty.txt'')"
    by (simp add: strip_txt demo_env_def)
  have l: "load_document demo_env (strip ''empty.txt'') = ([], Inr (Some []))"
    by (simp add: strip_txt load_empty_txt)
  show ?thesis
    using empty_text_skips_chat[OF e l, of "[''Why?'']"] load_empty_txt by simp
qed

end
